theory Spec2Isabelle
  imports Main "HOL-Library.Word" "HOL-Library.Char_ord" "HOL-Library.List_Lexorder"
begin

section \<open>Go values shared by the database layer\<close>

text \<open>
  A Go \<open>error\<close> is either created from a message (\<open>fmt.Errorf\<close> without \<open>%w\<close>,
  \<open>errors.New\<close>, an error of the engine or of the operating system) or wraps another
  error with text before and after it (\<open>fmt.Errorf("...: %w ...", err)\<close>).
  A returned \<open>nil\<close> error is \<open>None\<close> of \<open>error option\<close>.
\<close>

datatype error = Errorf string | Wrapf string error string

text \<open>\<open>err.Error()\<close>, which is also what \<open>%v\<close> prints for an error.\<close>

fun Error :: "error \<Rightarrow> string" where
  "Error (Errorf msg) = msg"
| "Error (Wrapf before err after) = before @ Error err @ after"

type_synonym byte = "8 word"

text \<open>\<open>%d\<close> of a non-negative integer, and of an \<open>int\<close>.\<close>

definition digit_char :: "nat \<Rightarrow> char" where
  "digit_char d = char_of (48 + d)"

fun show_nat :: "nat \<Rightarrow> string" where
  "show_nat n = (if n < 10 then [digit_char n] else show_nat (n div 10) @ [digit_char (n mod 10)])"

declare show_nat.simps [simp del]

definition show_int :: "int \<Rightarrow> string" where
  "show_int i = (if i < 0 then CHR ''-'' # show_nat (nat (- i)) else show_nat (nat i))"

section \<open>Backup files: \<open>isCompressedFile\<close> and \<open>GetBackupInfo\<close>\<close>

text \<open>
  The file system as the two functions see it: a path names at most one file, which has
  its bytes, a modification time and a flag telling whether \<open>os.Open\<close> succeeds on it
  (\<open>os.Stat\<close> needs no read permission on the file itself).
\<close>

record osfile =
  content :: "byte list"
  modTime :: nat
  openable :: bool

type_synonym filesystem = "string \<rightharpoonup> osfile"

definition os_Stat :: "filesystem \<Rightarrow> string \<Rightarrow> error + osfile" where
  "os_Stat fs path =
     (case fs path of
        None \<Rightarrow> Inl (Errorf (''stat '' @ path @ '': no such file or directory''))
      | Some f \<Rightarrow> Inr f)"

definition os_Open :: "filesystem \<Rightarrow> string \<Rightarrow> error + osfile" where
  "os_Open fs path =
     (case fs path of
        None \<Rightarrow> Inl (Errorf (''open '' @ path @ '': no such file or directory''))
      | Some f \<Rightarrow>
          if openable f then Inr f
          else Inl (Errorf (''open '' @ path @ '': permission denied'')))"

text \<open>
  \<open>file.Read(buffer)\<close> at offset 0 of a regular file: at end of file it reads nothing and
  returns \<open>io.EOF\<close>; otherwise it overwrites the front of the buffer with as many bytes as
  the file has, up to the buffer's length, and leaves the rest of the buffer as it was.
\<close>

definition file_Read :: "osfile \<Rightarrow> byte list \<Rightarrow> byte list \<times> nat \<times> error option" where
  "file_Read f buffer =
     (if content f = [] \<and> buffer \<noteq> [] then (buffer, 0, Some (Errorf ''EOF''))
      else (let got = take (length buffer) (content f)
            in (got @ drop (length got) buffer, length got, None)))"

definition isCompressedFile :: "filesystem \<Rightarrow> string \<Rightarrow> error + bool" where
  "isCompressedFile fs path =
     (case os_Open fs path of
        Inl err \<Rightarrow> Inl (Wrapf ''failed to open file: '' err [])
      | Inr f \<Rightarrow>
          (case file_Read f [0, 0] of
             (buffer, n, Some err) \<Rightarrow> Inl (Wrapf ''failed to read file header: '' err [])
           | (buffer, n, None) \<Rightarrow> Inr (buffer ! 0 = 0x1f \<and> buffer ! 1 = 0x8b)))"

record BackupInfo =
  Path :: string
  Size :: int
  ModTime :: nat
  IsCompressed :: bool

definition GetBackupInfo :: "filesystem \<Rightarrow> string \<Rightarrow> error + BackupInfo" where
  "GetBackupInfo fs backupPath =
     (case os_Stat fs backupPath of
        Inl err \<Rightarrow> Inl (Wrapf ''failed to stat backup file: '' err [])
      | Inr stat \<Rightarrow>
          (case isCompressedFile fs backupPath of
             Inl err \<Rightarrow> Inl err
           | Inr isCompressed \<Rightarrow>
               Inr \<lparr>Path = backupPath, Size = int (length (content stat)),
                    ModTime = modTime stat, IsCompressed = isCompressed\<rparr>))"

text \<open>The gzip signature as the specification words it: the first two bytes of the file.\<close>

definition has_gzip_magic :: "byte list \<Rightarrow> bool" where
  "has_gzip_magic bs = (take 2 bs = [0x1f, 0x8b])"

definition empty_backup_fs :: filesystem where
  "empty_backup_fs = [''backup.db'' \<mapsto> \<lparr>content = [], modTime = 0, openable = True\<rparr>]"

definition gzip_backup_fs :: filesystem where
  "gzip_backup_fs =
     [''backup.db'' \<mapsto> \<lparr>content = [0x1f, 0x8b, 0x08], modTime = 7, openable = True\<rparr>]"

section \<open>Health checks: \<open>CheckHealth\<close>\<close>

text \<open>
  The probes are read-only queries; their outcomes are the input of the model. Each probe
  gives the engine's error or the scanned value. The clock enters through the start time
  and the printed duration of every check (numbered 1 to 8 in the order \<open>CheckHealth\<close>
  runs them) and through the measured duration of the latency probe, in nanoseconds.
\<close>

datatype rowprobe = ScanFailed | Counted string "error + int"

record probes =
  ping :: "error option"
  integrity_check :: "error + string"
  sqlite_version :: "error + string"
  journal_mode :: "error + string"
  table_count :: "error + int"
  table_rows :: "error + rowprobe list"
  freelist_count :: "error + int"
  master_count :: "error + int"
  queryDuration :: nat
  queryDuration_String :: string
  started :: "nat \<Rightarrow> nat"
  elapsed :: "nat \<Rightarrow> string"

record HealthCheck =
  check_Name :: string
  check_Status :: string
  check_Message :: string
  check_Value :: string
  check_Duration :: string
  check_CheckedAt :: nat

definition new_check :: "string \<Rightarrow> nat \<Rightarrow> HealthCheck" where
  "new_check name start =
     \<lparr>check_Name = name, check_Status = [], check_Message = [], check_Value = [],
      check_Duration = [], check_CheckedAt = start\<rparr>"

definition checkConnectivity :: "probes \<Rightarrow> HealthCheck" where
  "checkConnectivity p =
     (let check = new_check ''Database Connectivity'' (started p 1);
          check = (case ping p of
                     Some err \<Rightarrow>
                       check\<lparr>check_Status := ''ERROR'',
                             check_Message := ''Failed to connect to database: '' @ Error err\<rparr>
                   | None \<Rightarrow>
                       check\<lparr>check_Status := ''OK'',
                             check_Message := ''Database connection successful''\<rparr>)
      in check\<lparr>check_Duration := elapsed p 1\<rparr>)"

definition checkIntegrity :: "probes \<Rightarrow> HealthCheck" where
  "checkIntegrity p =
     (let check = new_check ''Database Integrity'' (started p 2);
          check = (case integrity_check p of
                     Inl err \<Rightarrow>
                       check\<lparr>check_Status := ''ERROR'',
                             check_Message := ''Integrity check failed: '' @ Error err\<rparr>
                   | Inr result \<Rightarrow>
                       if result = ''ok''
                       then check\<lparr>check_Status := ''OK'',
                                  check_Message := ''Database integrity verified'',
                                  check_Value := ''ok''\<rparr>
                       else check\<lparr>check_Status := ''ERROR'',
                                  check_Message := ''Integrity issues found: '' @ result,
                                  check_Value := result\<rparr>)
      in check\<lparr>check_Duration := elapsed p 2\<rparr>)"

definition checkVersion :: "probes \<Rightarrow> HealthCheck" where
  "checkVersion p =
     (let check = new_check ''SQLite Version'' (started p 3);
          check = (case sqlite_version p of
                     Inl err \<Rightarrow>
                       check\<lparr>check_Status := ''WARNING'',
                             check_Message := ''Could not retrieve SQLite version: '' @ Error err\<rparr>
                   | Inr version \<Rightarrow>
                       check\<lparr>check_Status := ''OK'',
                             check_Message := ''SQLite version: '' @ version,
                             check_Value := version\<rparr>)
      in check\<lparr>check_Duration := elapsed p 3\<rparr>)"

definition checkWALMode :: "probes \<Rightarrow> HealthCheck" where
  "checkWALMode p =
     (let check = new_check ''Journal Mode'' (started p 4);
          check = (case journal_mode p of
                     Inl err \<Rightarrow>
                       check\<lparr>check_Status := ''WARNING'',
                             check_Message := ''Could not retrieve journal mode: '' @ Error err\<rparr>
                   | Inr mode \<Rightarrow>
                       (let check = check\<lparr>check_Value := mode\<rparr>
                        in if mode = ''wal''
                           then check\<lparr>check_Status := ''OK'',
                                  check_Message := ''WAL mode enabled (optimal for concurrency)''\<rparr>
                           else check\<lparr>check_Status := ''WARNING'',
                                  check_Message :=
                                    ''Journal mode is '' @ mode @ '' (consider enabling WAL)''\<rparr>))
      in check\<lparr>check_Duration := elapsed p 4\<rparr>)"

definition checkTables :: "probes \<Rightarrow> HealthCheck" where
  "checkTables p =
     (let check = new_check ''Table Count'' (started p 5);
          check = (case table_count p of
                     Inl err \<Rightarrow>
                       check\<lparr>check_Status := ''WARNING'',
                             check_Message := ''Could not count tables: '' @ Error err\<rparr>
                   | Inr count \<Rightarrow>
                       check\<lparr>check_Status := ''OK'',
                             check_Message := ''Database contains '' @ show_int count @ '' tables'',
                             check_Value := show_int count\<rparr>)
      in check\<lparr>check_Duration := elapsed p 5\<rparr>)"

text \<open>The loop of \<open>checkRowCounts\<close>: a row that fails to scan or to count adds nothing.\<close>

fun sum_rows :: "int \<Rightarrow> rowprobe list \<Rightarrow> int" where
  "sum_rows totalRows [] = totalRows"
| "sum_rows totalRows (ScanFailed # rs) = sum_rows totalRows rs"
| "sum_rows totalRows (Counted tableName (Inl err) # rs) = sum_rows totalRows rs"
| "sum_rows totalRows (Counted tableName (Inr rowCount) # rs) = sum_rows (totalRows + rowCount) rs"

definition checkRowCounts :: "probes \<Rightarrow> HealthCheck" where
  "checkRowCounts p =
     (let check = new_check ''Total Row Count'' (started p 6)
      in case table_rows p of
           Inl err \<Rightarrow>
             check\<lparr>check_Status := ''WARNING'',
                   check_Message := ''Could not retrieve table names: '' @ Error err,
                   check_Duration := elapsed p 6\<rparr>
         | Inr rows \<Rightarrow>
             (let totalRows = sum_rows 0 rows
              in check\<lparr>check_Status := ''OK'',
                       check_Message := ''Database contains '' @ show_int totalRows @ '' total rows'',
                       check_Value := show_int totalRows,
                       check_Duration := elapsed p 6\<rparr>))"

definition checkFreeSpace :: "probes \<Rightarrow> HealthCheck" where
  "checkFreeSpace p =
     (let check = new_check ''Free Space'' (started p 7);
          check = (case freelist_count p of
                     Inl err \<Rightarrow>
                       check\<lparr>check_Status := ''WARNING'',
                             check_Message := ''Could not check free space: '' @ Error err\<rparr>
                   | Inr freePages \<Rightarrow>
                       (let check = check\<lparr>check_Status := ''OK''\<rparr>;
                            check = (if freePages > 100
                                     then check\<lparr>check_Status := ''WARNING'',
                                            check_Message := ''Database has '' @ show_int freePages
                                              @ '' free pages (consider VACUUM)''\<rparr>
                                     else check\<lparr>check_Message := ''Database has ''
                                              @ show_int freePages @ '' free pages''\<rparr>)
                        in check\<lparr>check_Value := show_int freePages\<rparr>))
      in check\<lparr>check_Duration := elapsed p 7\<rparr>)"

definition checkPerformance :: "probes \<Rightarrow> HealthCheck" where
  "checkPerformance p =
     (let check = new_check ''Query Performance'' (started p 8);
          check = (case master_count p of
                     Inl err \<Rightarrow>
                       check\<lparr>check_Status := ''WARNING'',
                             check_Message := ''Performance test failed: '' @ Error err\<rparr>
                   | Inr result \<Rightarrow>
                       if queryDuration p > 100 * 1000000
                       then check\<lparr>check_Status := ''WARNING'',
                              check_Message := ''Slow query performance: '' @ queryDuration_String p\<rparr>
                       else check\<lparr>check_Status := ''OK'',
                              check_Message := ''Query performance: '' @ queryDuration_String p\<rparr>);
          check = check\<lparr>check_Value := queryDuration_String p\<rparr>
      in check\<lparr>check_Duration := elapsed p 8\<rparr>)"

text \<open>
  The report. \<open>TableCount\<close>, \<open>TotalRows\<close> and \<open>Recommendations\<close> are left out: they are
  read back from the checks' printed values and feed neither \<open>Status\<close> nor \<open>Checks\<close>.
\<close>

record HealthStatus =
  Status :: string
  CheckedAt :: nat
  DatabasePath :: string
  DatabaseSize :: int
  IntegrityOK :: bool
  WALMode :: bool
  Version :: string
  Checks :: "HealthCheck list"

text \<open>
  The closing loop of \<open>CheckHealth\<close> over the checks, started from the status reached so
  far: an \<open>ERROR\<close> check sets \<open>ERROR\<close> and leaves the loop; a \<open>WARNING\<close> check raises
  \<open>OK\<close> to \<open>WARNING\<close>.
\<close>

fun overall_loop :: "string \<Rightarrow> HealthCheck list \<Rightarrow> string" where
  "overall_loop status [] = status"
| "overall_loop status (check # checks) =
     (if check_Status check = ''ERROR'' then ''ERROR''
      else if check_Status check = ''WARNING'' \<and> status = ''OK''
           then overall_loop ''WARNING'' checks
           else overall_loop status checks)"

definition CheckHealth :: "string \<Rightarrow> nat \<Rightarrow> int option \<Rightarrow> probes \<Rightarrow> HealthStatus" where
  "CheckHealth path now stat_size p =
     (let status = \<lparr>Status = ''OK'', CheckedAt = now, DatabasePath = path, DatabaseSize = 0,
                     IntegrityOK = False, WALMode = False, Version = [], Checks = []\<rparr>;
          status = (case stat_size of Some sz \<Rightarrow> status\<lparr>DatabaseSize := sz\<rparr> | None \<Rightarrow> status);
          connectCheck = checkConnectivity p;
          checks = [connectCheck]
      in if check_Status connectCheck = ''ERROR''
         then status\<lparr>Status := ''ERROR'', Checks := checks\<rparr>
         else
          (let integrityCheck = checkIntegrity p;
               checks = checks @ [integrityCheck];
               status = status\<lparr>IntegrityOK := (check_Status integrityCheck = ''OK'')\<rparr>;
               status = (if check_Status integrityCheck = ''ERROR''
                         then status\<lparr>Status := ''ERROR''\<rparr> else status);
               versionCheck = checkVersion p;
               checks = checks @ [versionCheck];
               status = status\<lparr>Version := check_Value versionCheck\<rparr>;
               walCheck = checkWALMode p;
               checks = checks @ [walCheck];
               status = status\<lparr>WALMode := (check_Value walCheck = ''wal'')\<rparr>;
               checks = checks @ [checkTables p];
               checks = checks @ [checkRowCounts p];
               checks = checks @ [checkFreeSpace p];
               checks = checks @ [checkPerformance p];
               status = status\<lparr>Checks := checks\<rparr>
           in status\<lparr>Status := overall_loop (Status status) checks\<rparr>))"

text \<open>
  The overall status as the specification words it: \<open>ERROR\<close> if any check is \<open>ERROR\<close>,
  else \<open>WARNING\<close> if any check is \<open>WARNING\<close>, else \<open>OK\<close>; and the severity order
  \<open>ERROR > WARNING > OK\<close>.
\<close>

definition worst_status :: "string list \<Rightarrow> string" where
  "worst_status statuses =
     (if ''ERROR'' \<in> set statuses then ''ERROR''
      else if ''WARNING'' \<in> set statuses then ''WARNING'' else ''OK'')"

definition severity :: "string \<Rightarrow> nat" where
  "severity status = (if status = ''ERROR'' then 2 else if status = ''WARNING'' then 1 else 0)"

definition healthy_probes :: probes where
  "healthy_probes =
     \<lparr>ping = None, integrity_check = Inr ''ok'', sqlite_version = Inr ''3.45.1'',
      journal_mode = Inr ''delete'', table_count = Inr 6,
      table_rows = Inr [Counted ''templates'' (Inr 2), ScanFailed, Counted ''hooks'' (Inl (Errorf ''busy''))],
      freelist_count = Inr 0, master_count = Inr 13, queryDuration = 52000000,
      queryDuration_String = ''52ms'', started = (\<lambda>i. i), elapsed = (\<lambda>i. ''1ms'')\<rparr>"

definition all_checks :: "probes \<Rightarrow> HealthCheck list" where
  "all_checks p = [checkConnectivity p, checkIntegrity p, checkVersion p, checkWALMode p,
     checkTables p, checkRowCounts p, checkFreeSpace p, checkPerformance p]"

section \<open>Strings: \<open>strings.TrimSpace\<close>, \<open>strings.HasPrefix\<close>, \<open>strings.Split\<close>, \<open>%c\<close>\<close>

text \<open>
  A Go string is a byte sequence, here a \<open>string\<close> of 8-bit characters.
  \<open>strings.TrimSpace\<close> removes leading and trailing white space as defined by Unicode:
  the six ASCII characters below and the code points U+0085, U+00A0, U+1680,
  U+2000 to U+200A, U+2028, U+2029, U+202F, U+205F and U+3000, given here by their
  UTF-8 encodings.
\<close>

abbreviation TAB :: string where
  "TAB \<equiv> [CHR 0x09]"

definition whiteSpace :: "string list" where
  "whiteSpace =
     [[CHR 0x09], [CHR 0x0A], [CHR 0x0B], [CHR 0x0C], [CHR 0x0D], [CHR 0x20],
      [CHR 0xC2, CHR 0x85], [CHR 0xC2, CHR 0xA0], [CHR 0xE1, CHR 0x9A, CHR 0x80],
      [CHR 0xE2, CHR 0x80, CHR 0x80], [CHR 0xE2, CHR 0x80, CHR 0x81],
      [CHR 0xE2, CHR 0x80, CHR 0x82], [CHR 0xE2, CHR 0x80, CHR 0x83],
      [CHR 0xE2, CHR 0x80, CHR 0x84], [CHR 0xE2, CHR 0x80, CHR 0x85],
      [CHR 0xE2, CHR 0x80, CHR 0x86], [CHR 0xE2, CHR 0x80, CHR 0x87],
      [CHR 0xE2, CHR 0x80, CHR 0x88], [CHR 0xE2, CHR 0x80, CHR 0x89],
      [CHR 0xE2, CHR 0x80, CHR 0x8A], [CHR 0xE2, CHR 0x80, CHR 0xA8],
      [CHR 0xE2, CHR 0x80, CHR 0xA9], [CHR 0xE2, CHR 0x80, CHR 0xAF],
      [CHR 0xE2, CHR 0x81, CHR 0x9F], [CHR 0xE3, CHR 0x80, CHR 0x80]]"

definition HasPrefix :: "string \<Rightarrow> string \<Rightarrow> bool" where
  "HasPrefix s pre = (take (length pre) s = pre)"

text \<open>The number of bytes of the pattern that starts \<open>s\<close>, 0 when none does.\<close>

definition leading :: "string list \<Rightarrow> string \<Rightarrow> nat" where
  "leading pats s = (case find (HasPrefix s) pats of None \<Rightarrow> 0 | Some w \<Rightarrow> length w)"

function strip :: "string list \<Rightarrow> string \<Rightarrow> string" where
  "strip pats s = (if s = [] \<or> leading pats s = 0 then s else strip pats (drop (leading pats s) s))"
  by pat_completeness auto
termination
  by (relation "measure (\<lambda>(pats, s). length s)") auto

declare strip.simps [simp del]

definition TrimSpace :: "string \<Rightarrow> string" where
  "TrimSpace s = rev (strip (map rev whiteSpace) (rev (strip whiteSpace s)))"

text \<open>\<open>strings.Split(s, ";")\<close>: the pieces between the separators, one more than there are
  separators; \<open>current\<close> collects the piece being read, in reverse.\<close>

fun split_from :: "string \<Rightarrow> char \<Rightarrow> string \<Rightarrow> string list" where
  "split_from current sep [] = [rev current]"
| "split_from current sep (c # cs) =
     (if c = sep then rev current # split_from [] sep cs else split_from (c # current) sep cs)"

definition Split :: "string \<Rightarrow> char \<Rightarrow> string list" where
  "Split s sep = split_from [] sep s"

text \<open>\<open>%c\<close> of a byte: the UTF-8 encoding of the code point with the byte's value.\<close>

definition fmt_c :: "char \<Rightarrow> string" where
  "fmt_c b =
     (let n = (of_char b :: nat)
      in if n < 128 then [b] else [char_of (192 + n div 64), char_of (128 + n mod 64)])"

section \<open>The store, the engine and transactions\<close>

text \<open>
  The store holds the migration ledger (the table \<open>schema_migrations\<close>, absent until it
  is created) and everything else (\<open>user\<close>: the other tables, their rows, the indexes),
  which only SQL text run by the engine reads or changes. The ledger's rows are listed in
  the order in which the engine scans them; \<open>id\<close> is the table's primary key and
  \<open>applied_at\<close> a time stamp.
\<close>

record ledger_row =
  row_id :: string
  row_description :: string
  row_applied_at :: nat
  row_checksum :: string

record 'u store =
  user :: 'u
  ledger :: "ledger_row list option"

text \<open>
  The SQL engine is a parameter. \<open>run\<close> executes SQL text inside a transaction on the
  transaction's state and fails or gives the new state; \<open>stmt_err\<close> tells whether the
  engine refuses one of the fixed statements of this layer in a given state (a closed
  handle, a locked file, a full disk); \<open>begin_err\<close> and \<open>commit_err\<close> do the same for
  starting and committing a transaction.
\<close>

record 'db engine =
  stmt_err :: "'db \<Rightarrow> error option"
  begin_err :: "'db \<Rightarrow> error option"
  run :: "string \<Rightarrow> 'db \<Rightarrow> error + 'db"
  commit_err :: "'db \<Rightarrow> error option"

text \<open>
  A transaction keeps the state it started from and the state its statements have built.
  Commit makes the built state the store's state, or fails and leaves the store as it
  was at the start (the driver rolls back after a failed commit); rollback leaves the
  store as it was at the start.
\<close>

record 'db tx =
  snapshot :: 'db
  work :: 'db

definition BeginTx :: "'db engine \<Rightarrow> 'db \<Rightarrow> error + 'db tx" where
  "BeginTx eng db =
     (case begin_err eng db of
        Some err \<Rightarrow> Inl err
      | None \<Rightarrow> Inr \<lparr>snapshot = db, work = db\<rparr>)"

definition tx_ExecContext :: "'db engine \<Rightarrow> string \<Rightarrow> 'db tx \<Rightarrow> error + 'db tx" where
  "tx_ExecContext eng query t =
     (case run eng query (work t) of
        Inl err \<Rightarrow> Inl err
      | Inr w \<Rightarrow> Inr (t\<lparr>work := w\<rparr>))"

definition tx_Commit :: "'db engine \<Rightarrow> 'db tx \<Rightarrow> error option \<times> 'db" where
  "tx_Commit eng t =
     (case commit_err eng (work t) of
        Some err \<Rightarrow> (Some err, snapshot t)
      | None \<Rightarrow> (None, work t))"

definition tx_Rollback :: "'db tx \<Rightarrow> 'db" where
  "tx_Rollback t = snapshot t"

text \<open>The fixed statements on the ledger, on a store state.\<close>

definition create_ledger :: "'u store engine \<Rightarrow> 'u store \<Rightarrow> error + 'u store" where
  \<comment> \<open>\<open>CREATE TABLE IF NOT EXISTS schema_migrations (...)\<close>\<close>
  "create_ledger eng db =
     (case stmt_err eng db of
        Some err \<Rightarrow> Inl err
      | None \<Rightarrow> (case ledger db of None \<Rightarrow> Inr (db\<lparr>ledger := Some []\<rparr>) | Some rows \<Rightarrow> Inr db))"

definition select_ledger :: "'u store engine \<Rightarrow> 'u store \<Rightarrow> error + ledger_row list" where
  \<comment> \<open>\<open>SELECT id, description, applied_at FROM schema_migrations\<close>\<close>
  "select_ledger eng db =
     (case stmt_err eng db of
        Some err \<Rightarrow> Inl err
      | None \<Rightarrow>
          (case ledger db of
             None \<Rightarrow> Inl (Errorf ''no such table: schema_migrations'')
           | Some rows \<Rightarrow> Inr rows))"

definition insert_ledger ::
  "'u store engine \<Rightarrow> nat \<Rightarrow> string \<Rightarrow> string \<Rightarrow> string \<Rightarrow> 'u store \<Rightarrow> error + 'u store" where
  \<comment> \<open>\<open>INSERT INTO schema_migrations (id, description, checksum) VALUES (?, ?, ?)\<close>;
      \<open>applied_at\<close> takes its default, the current time\<close>
  "insert_ledger eng now mid description checksum db =
     (case stmt_err eng db of
        Some err \<Rightarrow> Inl err
      | None \<Rightarrow>
          (case ledger db of
             None \<Rightarrow> Inl (Errorf ''no such table: schema_migrations'')
           | Some rows \<Rightarrow>
               if mid \<in> set (map row_id rows)
               then Inl (Errorf ''UNIQUE constraint failed: schema_migrations.id'')
               else Inr (db\<lparr>ledger := Some (rows @
                      [\<lparr>row_id = mid, row_description = description, row_applied_at = now,
                        row_checksum = checksum\<rparr>])\<rparr>)))"

definition delete_ledger :: "'u store engine \<Rightarrow> string \<Rightarrow> 'u store \<Rightarrow> error + 'u store" where
  \<comment> \<open>\<open>DELETE FROM schema_migrations WHERE id = ?\<close>\<close>
  "delete_ledger eng mid db =
     (case stmt_err eng db of
        Some err \<Rightarrow> Inl err
      | None \<Rightarrow>
          (case ledger db of
             None \<Rightarrow> Inl (Errorf ''no such table: schema_migrations'')
           | Some rows \<Rightarrow> Inr (db\<lparr>ledger := Some (filter (\<lambda>r. row_id r \<noteq> mid) rows)\<rparr>)))"


section \<open>The storage handle: \<open>WithTx\<close>\<close>

text \<open>
  The function given to \<open>WithTx\<close> runs statements on the transaction: from the state
  the transaction has built it produces a new one, and it returns an error or \<open>nil\<close>, or
  panics with a value. It does not end the transaction itself.
\<close>

datatype 'a outcome = Returns 'a | Panics string

definition WithTx ::
  "'db engine \<Rightarrow> ('db \<Rightarrow> error option outcome \<times> 'db) \<Rightarrow> 'db \<Rightarrow> error option outcome \<times> 'db" where
  "WithTx eng fn db =
     (case BeginTx eng db of
        Inl err \<Rightarrow> (Returns (Some (Wrapf ''failed to begin transaction: '' err [])), db)
      | Inr t \<Rightarrow>
          (case fn (work t) of
             (Panics p, w) \<Rightarrow> (Panics p, tx_Rollback (t\<lparr>work := w\<rparr>))
           | (Returns (Some err), w) \<Rightarrow> (Returns (Some err), tx_Rollback (t\<lparr>work := w\<rparr>))
           | (Returns None, w) \<Rightarrow>
               (case tx_Commit eng (t\<lparr>work := w\<rparr>) of (res, db') \<Rightarrow> (Returns res, db'))))"

section \<open>The migration engine\<close>

record Migration =
  ID :: string
  Description :: string
  UpSQL :: string
  DownSQL :: string
  Applied :: bool
  AppliedAt :: "nat option"

text \<open>
  The registry is a Go map from id to migration. It is kept as a list of its entries,
  one per key, in the order in which a \<open>range\<close> loop visits them, which Go leaves
  unspecified.
\<close>

type_synonym registry = "(string \<times> Migration) list"

definition NewMigrationManager :: registry where
  "NewMigrationManager = []"

fun assign :: "string \<Rightarrow> Migration \<Rightarrow> registry \<Rightarrow> registry" where
  "assign k v [] = [(k, v)]"
| "assign k v (p # ps) = (if fst p = k then (k, v) # ps else p # assign k v ps)"

definition RegisterMigration ::
  "string \<Rightarrow> string \<Rightarrow> string \<Rightarrow> string \<Rightarrow> registry \<Rightarrow> registry" where
  "RegisterMigration mid description upSQL downSQL migrations =
     assign mid \<lparr>ID = mid, Description = description, UpSQL = upSQL, DownSQL = downSQL,
                 Applied = False, AppliedAt = None\<rparr> migrations"

definition InitMigrationTable :: "'u store engine \<Rightarrow> 'u store \<Rightarrow> error option \<times> 'u store" where
  "InitMigrationTable eng db =
     (case create_ledger eng db of
        Inl err \<Rightarrow> (Some (Wrapf ''failed to create schema_migrations table: '' err []), db)
      | Inr db' \<Rightarrow> (None, db'))"

fun collect_applied :: "(string \<rightharpoonup> Migration) \<Rightarrow> ledger_row list \<Rightarrow> (string \<rightharpoonup> Migration)" where
  "collect_applied applied [] = applied"
| "collect_applied applied (r # rs) =
     collect_applied
       (applied(row_id r \<mapsto> \<lparr>ID = row_id r, Description = row_description r, UpSQL = [],
                              DownSQL = [], Applied = True, AppliedAt = Some (row_applied_at r)\<rparr>))
       rs"

definition GetAppliedMigrations ::
  "'u store engine \<Rightarrow> 'u store \<Rightarrow> (error + (string \<rightharpoonup> Migration)) \<times> 'u store" where
  "GetAppliedMigrations eng db =
     (case InitMigrationTable eng db of
        (Some err, db') \<Rightarrow> (Inl err, db')
      | (None, db') \<Rightarrow>
          (case select_ledger eng db' of
             Inl err \<Rightarrow> (Inl (Wrapf ''failed to query applied migrations: '' err []), db')
           | Inr rows \<Rightarrow> (Inr (collect_applied Map.empty (sort_key row_id rows)), db')))"

text \<open>
  \<open>sort.Slice\<close> by \<open>ID\<close>, in Go's byte-wise order on strings. The sort is not stable,
  which cannot show when the ids differ; \<open>sort_key\<close> stands for it.
\<close>

definition GetPendingMigrations ::
  "'u store engine \<Rightarrow> registry \<Rightarrow> 'u store \<Rightarrow> (error + Migration list) \<times> 'u store" where
  "GetPendingMigrations eng migrations db =
     (case GetAppliedMigrations eng db of
        (Inl err, db') \<Rightarrow> (Inl err, db')
      | (Inr applied, db') \<Rightarrow>
          (Inr (sort_key ID (map snd (filter (\<lambda>(mid, migration). applied mid = None) migrations))),
           db'))"

definition generateChecksum :: "string \<Rightarrow> string" where
  "generateChecksum content0 =
     (let content = TrimSpace content0
      in if length content = 0 then ''empty''
         else show_nat (length content) @ ''-'' @ fmt_c (content ! 0)
              @ fmt_c (content ! (length content - 1)))"

definition ApplyMigration ::
  "'u store engine \<Rightarrow> nat \<Rightarrow> Migration \<Rightarrow> 'u store \<Rightarrow> error option \<times> 'u store" where
  "ApplyMigration eng now migration db =
     (if UpSQL migration = [] then (Some (Errorf (''migration '' @ ID migration @ '' has no up SQL'')), db)
      else case BeginTx eng db of
        Inl err \<Rightarrow> (Some (Wrapf ''failed to begin transaction: '' err []), db)
      | Inr t \<Rightarrow>
          (case tx_ExecContext eng (UpSQL migration) t of
             Inl err \<Rightarrow>
               (Some (Wrapf (''failed to execute migration '' @ ID migration @ '': '') err []),
                tx_Rollback t)
           | Inr t1 \<Rightarrow>
               (case insert_ledger eng now (ID migration) (Description migration)
                       (generateChecksum (UpSQL migration)) (work t1) of
                  Inl err \<Rightarrow>
                    (Some (Wrapf (''failed to record migration '' @ ID migration @ '': '') err []),
                     tx_Rollback t1)
                | Inr w \<Rightarrow>
                    (case tx_Commit eng (t1\<lparr>work := w\<rparr>) of
                       (Some err, db') \<Rightarrow>
                         (Some (Wrapf (''failed to commit migration '' @ ID migration @ '': '') err []),
                          db')
                     | (None, db') \<Rightarrow> (None, db')))))"

definition RollbackMigration ::
  "'u store engine \<Rightarrow> Migration \<Rightarrow> 'u store \<Rightarrow> error option \<times> 'u store" where
  "RollbackMigration eng migration db =
     (if DownSQL migration = []
      then (Some (Errorf (''migration '' @ ID migration @ '' has no down SQL'')), db)
      else case BeginTx eng db of
        Inl err \<Rightarrow> (Some (Wrapf ''failed to begin transaction: '' err []), db)
      | Inr t \<Rightarrow>
          (case tx_ExecContext eng (DownSQL migration) t of
             Inl err \<Rightarrow>
               (Some (Wrapf (''failed to rollback migration '' @ ID migration @ '': '') err []),
                tx_Rollback t)
           | Inr t1 \<Rightarrow>
               (case delete_ledger eng (ID migration) (work t1) of
                  Inl err \<Rightarrow>
                    (Some (Wrapf (''failed to remove migration record '' @ ID migration @ '': '')
                             err []),
                     tx_Rollback t1)
                | Inr w \<Rightarrow>
                    (case tx_Commit eng (t1\<lparr>work := w\<rparr>) of
                       (Some err, db') \<Rightarrow>
                         (Some (Wrapf (''failed to commit rollback '' @ ID migration @ '': '') err []),
                          db')
                     | (None, db') \<Rightarrow> (None, db')))))"



text \<open>The SQL text of the four core migrations, byte for byte.\<close>

definition up_001 :: string where
  "up_001 =
     ''-- This migration ensures core tables exist\<newline>'' @ TAB @ TAB
     @ '' -- (Schema may already be created by schema.go, but this ensures consistency)''"

definition down_001 :: string where
  "down_001 =
     ''-- Rollback would drop tables, but we don't want to accidentally destroy data\<newline>''
     @ TAB @ TAB
     @ '' -- SELECT 'Rollback not implemented for initial schema' as warning;''"

definition up_002 :: string where
  "up_002 =
     ''CREATE INDEX IF NOT EXISTS idx_templates_name ON templates(name);\<newline>''
     @ TAB @ TAB
     @ '' CREATE INDEX IF NOT EXISTS idx_blueprints_name ON blueprints(name);\<newline>''
     @ TAB @ TAB
     @ '' CREATE INDEX IF NOT EXISTS idx_blueprints_stack ON blueprints(stack);''"

definition down_002 :: string where
  "down_002 =
     ''DROP INDEX IF EXISTS idx_templates_name;\<newline>'' @ TAB @ TAB
     @ '' DROP INDEX IF EXISTS idx_blueprints_name;\<newline>'' @ TAB @ TAB
     @ '' DROP INDEX IF EXISTS idx_blueprints_stack;''"

definition up_003 :: string where
  "up_003 =
     ''CREATE TABLE IF NOT EXISTS audit_log (\<newline>'' @ TAB @ TAB @ TAB
     @ ''id INTEGER PRIMARY KEY AUTOINCREMENT,\<newline>'' @ TAB @ TAB @ TAB
     @ ''table_name VARCHAR(50) NOT NULL,\<newline>'' @ TAB @ TAB @ TAB
     @ ''record_id VARCHAR(255) NOT NULL,\<newline>'' @ TAB @ TAB @ TAB
     @ ''action VARCHAR(10) NOT NULL, -- INSERT, UPDATE, DELETE\<newline>'' @ TAB @ TAB
     @ TAB @ ''old_values TEXT,\<newline>'' @ TAB @ TAB @ TAB
     @ ''new_values TEXT,\<newline>'' @ TAB @ TAB @ TAB
     @ ''changed_at TIMESTAMP DEFAULT CURRENT_TIMESTAMP,\<newline>'' @ TAB @ TAB @ TAB
     @ ''changed_by VARCHAR(255)\<newline>'' @ TAB @ TAB @ '');\<newline>'' @ TAB @ TAB
     @ ''CREATE INDEX IF NOT EXISTS idx_audit_log_table ON audit_log(table_name);\<newline>''
     @ TAB @ TAB
     @ ''CREATE INDEX IF NOT EXISTS idx_audit_log_changed_at ON audit_log(changed_at);''"

definition down_003 :: string where
  "down_003 =
     ''DROP TABLE IF EXISTS audit_log;''"

definition up_004 :: string where
  "up_004 =
     ''-- Add metadata columns if they don't exist\<newline>'' @ TAB @ TAB
     @ '' ALTER TABLE templates ADD COLUMN created_at TIMESTAMP DEFAULT CURRENT_TIMESTAMP;\<newline>''
     @ TAB @ TAB
     @ '' ALTER TABLE templates ADD COLUMN updated_at TIMESTAMP DEFAULT CURRENT_TIMESTAMP;\<newline>''
     @ TAB @ TAB
     @ '' ALTER TABLE blueprints ADD COLUMN created_at TIMESTAMP DEFAULT CURRENT_TIMESTAMP;\<newline>''
     @ TAB @ TAB
     @ '' ALTER TABLE blueprints ADD COLUMN updated_at TIMESTAMP DEFAULT CURRENT_TIMESTAMP;''"

definition down_004 :: string where
  "down_004 =
     ''-- Note: SQLite doesn't support DROP COLUMN, so we can't easily roll this back\<newline>''
     @ TAB @ TAB @ '' SELECT 'Cannot rollback metadata columns in SQLite' as warning;''"


definition RegisterCoreSchemas :: "registry \<Rightarrow> registry" where
  "RegisterCoreSchemas migrations =
     (let migrations = RegisterMigration ''001_initial_schema''
            ''Create initial core tables for templates and blueprints'' up_001 down_001 migrations;
          migrations = RegisterMigration ''002_add_indexes''
            ''Add database indexes for improved query performance'' up_002 down_002 migrations;
          migrations = RegisterMigration ''003_add_audit_trail''
            ''Add audit trail tables for tracking changes'' up_003 down_003 migrations
      in RegisterMigration ''004_add_metadata_columns''
            ''Add created_at and updated_at columns to core tables'' up_004 down_004 migrations)"

text \<open>
  An engine that records: its \<open>user\<close> state is the list of the SQL texts it has run, in
  order, every text succeeds, and nothing else fails. It shows which statements reach the
  engine.
\<close>

definition recording_engine :: "string list store engine" where
  "recording_engine =
     \<lparr>stmt_err = (\<lambda>db. None), begin_err = (\<lambda>db. None),
      run = (\<lambda>query db. Inr (db\<lparr>user := user db @ [query]\<rparr>)),
      commit_err = (\<lambda>db. None)\<rparr>"

definition ledger_rows_for :: "string \<Rightarrow> 'u store \<Rightarrow> ledger_row list" where
  "ledger_rows_for mid db =
     (case ledger db of None \<Rightarrow> [] | Some rows \<Rightarrow> filter (\<lambda>r. row_id r = mid) rows)"

definition applied_ids :: "'u store \<Rightarrow> string set" where
  "applied_ids db = (case ledger db of None \<Rightarrow> {} | Some rows \<Rightarrow> set (map row_id rows))"

text \<open>
  What \<open>RegisterMigration\<close> maintains of the registry: one entry per key, and every
  entry's \<open>ID\<close> is its key.
\<close>

definition registered :: "registry \<Rightarrow> bool" where
  "registered migrations =
     (distinct (map fst migrations) \<and> list_all (\<lambda>(mid, migration). ID migration = mid) migrations)"

text \<open>Migrations and stores of the repository's tests, used as concrete inputs.\<close>

definition test_table :: Migration where
  "test_table =
     \<lparr>ID = ''001_test_table'', Description = ''Create test table'',
      UpSQL = ''CREATE TABLE test_table (id INTEGER PRIMARY KEY, name TEXT)'',
      DownSQL = ''DROP TABLE test_table'', Applied = False, AppliedAt = None\<rparr>"

definition test_table_row :: ledger_row where
  "test_table_row =
     \<lparr>row_id = ''001_test_table'', row_description = ''Create test table'',
      row_applied_at = 7, row_checksum = ''59-C)''\<rparr>"

definition three_registered :: registry where
  "three_registered =
     RegisterMigration ''002_second'' ''Second migration'' ''CREATE TABLE second (id INTEGER)''
       ''DROP TABLE second''
       (RegisterMigration ''001_first'' ''First migration'' ''CREATE TABLE first (id INTEGER)''
          ''DROP TABLE first''
          (RegisterMigration ''003_third'' ''Third migration'' ''CREATE TABLE third (id INTEGER)''
             ''DROP TABLE third'' NewMigrationManager))"

definition first_applied :: "string list store" where
  "first_applied =
     \<lparr>user = [''CREATE TABLE first (id INTEGER)''],
      ledger = Some [\<lparr>row_id = ''001_first'', row_description = [], row_applied_at = 3,
                       row_checksum = ''31-C)''\<rparr>]\<rparr>"

definition core_004 :: Migration where
  "core_004 =
     \<lparr>ID = ''004_add_metadata_columns'',
      Description = ''Add created_at and updated_at columns to core tables'',
      UpSQL = up_004, DownSQL = down_004, Applied = False, AppliedAt = None\<rparr>"

definition core_004_applied :: "string list store" where
  "core_004_applied =
     \<lparr>user = [up_004],
      ledger = Some [\<lparr>row_id = ''004_add_metadata_columns'',
                       row_description = ''Add created_at and updated_at columns to core tables'',
                       row_applied_at = 9, row_checksum = generateChecksum up_004\<rparr>]\<rparr>"

section \<open>Export and import\<close>

text \<open>
  The source store as the export reads it: the catalog of tables (\<open>sqlite_master\<close>), each
  with the text of its \<open>CREATE\<close> statement (which the catalog may hold as \<open>NULL\<close>), its
  column names and its rows, and the engine's refusal of a query, by the query's text.
  A scanned value is \<open>nil\<close>, a string or an \<open>int64\<close>; floating-point, blob and time values
  are outside the model. Table names are compared byte for byte.
\<close>

datatype sqlvalue = Null | Text string | Integer int

record table =
  table_sql :: "string option"
  table_columns :: "string list"
  table_rows :: "sqlvalue list list"

record source =
  refuses :: "string \<Rightarrow> error option"
  tables :: "(string \<times> table) list"

definition toLowerASCII :: "char \<Rightarrow> char" where
  "toLowerASCII c =
     (let n = (of_char c :: nat) in if 65 \<le> n \<and> n \<le> 90 then char_of (n + 32) else c)"

text \<open>\<open>name LIKE 'sqlite_%'\<close>: the six letters in either case, then at least one character.\<close>

definition like_sqlite :: "string \<Rightarrow> bool" where
  "like_sqlite name = (7 \<le> length name \<and> map toLowerASCII (take 6 name) = ''sqlite'')"

definition getTablesToExport :: "source \<Rightarrow> string list \<Rightarrow> error + string list" where
  "getTablesToExport src requestedTables =
     (if length requestedTables > 0 then Inr requestedTables
      else case refuses src
             (''SELECT name FROM sqlite_master WHERE type='' @ [CHR 0x27] @ ''table'' @ [CHR 0x27]
              @ '' AND name NOT LIKE '' @ [CHR 0x27] @ ''sqlite_%'' @ [CHR 0x27]
              @ '' ORDER BY name'') of
        Some err \<Rightarrow> Inl (Wrapf ''failed to query tables: '' err [])
      | None \<Rightarrow> Inr (sort (filter (\<lambda>name. \<not> like_sqlite name) (map fst (tables src)))))"

text \<open>The two writers return the text they append to the output file.\<close>

definition exportTableSchema :: "source \<Rightarrow> string \<Rightarrow> error + string" where
  "exportTableSchema src tableName =
     (case (case refuses src
                   (''SELECT sql FROM sqlite_master WHERE type='' @ [CHR 0x27] @ ''table''
                    @ [CHR 0x27] @ '' AND name=?'') of
              Some err \<Rightarrow> Inl err
            | None \<Rightarrow>
                (case map_of (tables src) tableName of
                   None \<Rightarrow> Inl (Errorf ''sql: no rows in result set'')
                 | Some t \<Rightarrow> Inr (table_sql t))) of
        Inl err \<Rightarrow> Inl (Wrapf (''failed to get schema for table '' @ tableName @ '': '') err [])
      | Inr None \<Rightarrow> Inr []
      | Inr (Some schema) \<Rightarrow>
          Inr (''-- Schema for table '' @ tableName @ ''\<newline>'' @ schema @ '';\<newline>\<newline>''))"

definition ReplaceAll_quote :: "string \<Rightarrow> string" where
  \<comment> \<open>\<open>strings.ReplaceAll(str, "'", "''")\<close>\<close>
  "ReplaceAll_quote str = concat (map (\<lambda>c. if c = CHR 0x27 then [CHR 0x27, CHR 0x27] else [c]) str)"

fun comma_separated :: "string list \<Rightarrow> string" where
  "comma_separated [] = []"
| "comma_separated [x] = x"
| "comma_separated (x # y # ys) = x @ '', '' @ comma_separated (y # ys)"

definition format_value :: "sqlvalue \<Rightarrow> string" where
  "format_value val =
     (case val of
        Null \<Rightarrow> ''NULL''
      | Text str \<Rightarrow> [CHR 0x27] @ ReplaceAll_quote str @ [CHR 0x27]
      | Integer i \<Rightarrow> show_int i)"

definition insert_statement :: "string \<Rightarrow> string list \<Rightarrow> sqlvalue list \<Rightarrow> string" where
  "insert_statement tableName cols vals =
     ''INSERT INTO '' @ tableName @ '' ('' @ comma_separated cols @ '') VALUES (''
     @ comma_separated (map format_value vals) @ '');\<newline>''"

definition exportTableData :: "source \<Rightarrow> string \<Rightarrow> error + (string \<times> nat)" where
  "exportTableData src tableName =
     (case (case refuses src (''SELECT * FROM '' @ tableName) of
              Some err \<Rightarrow> Inl err
            | None \<Rightarrow>
                (case map_of (tables src) tableName of
                   None \<Rightarrow> Inl (Errorf (''no such table: '' @ tableName))
                 | Some t \<Rightarrow> Inr t)) of
        Inl err \<Rightarrow> Inl (Wrapf ''failed to query table data: '' err [])
      | Inr t \<Rightarrow>
          Inr (''-- Data for table '' @ tableName @ ''\<newline>''
               @ concat (map (insert_statement tableName (table_columns t)) (table_rows t)),
               length (table_rows t)))"

text \<open>
  The loop of \<open>exportSQL\<close> over the tables; \<open>out\<close> is the text written so far, which stays
  in the file when the export stops at an error.
\<close>

fun export_tables ::
  "source \<Rightarrow> bool \<Rightarrow> bool \<Rightarrow> string list \<Rightarrow> string \<Rightarrow> nat \<Rightarrow> error option \<times> string \<times> nat" where
  "export_tables src includeSchema includeData [] out totalRows = (None, out, totalRows)"
| "export_tables src includeSchema includeData (t # ts) out totalRows =
     (case (if includeSchema then exportTableSchema src t else Inr []) of
        Inl err \<Rightarrow>
          (Some (Wrapf (''failed to export schema for table '' @ t @ '': '') err []), out, totalRows)
      | Inr schemaText \<Rightarrow>
          (if includeData
           then (case exportTableData src t of
                   Inl err \<Rightarrow>
                     (Some (Wrapf (''failed to export data for table '' @ t @ '': '') err []),
                      out @ schemaText, totalRows)
                 | Inr (dataText, n) \<Rightarrow>
                     export_tables src includeSchema includeData ts
                       (out @ schemaText @ dataText @ ''\<newline>'') (totalRows + n))
           else export_tables src includeSchema includeData ts
                  (out @ schemaText @ ''\<newline>'') totalRows))"

text \<open>
  \<open>exportSQL\<close> gives its error and the text of the output file. \<open>created\<close> is the outcome
  of creating the file and \<open>generated\<close> the printed time of the export.
\<close>

definition exportSQL ::
  "error option \<Rightarrow> string \<Rightarrow> source \<Rightarrow> string list \<Rightarrow> bool \<Rightarrow> bool \<Rightarrow> error option \<times> string" where
  "exportSQL created generated src requestedTables includeSchema includeData =
     (case created of
        Some err \<Rightarrow> (Some (Wrapf ''failed to create output file: '' err []), [])
      | None \<Rightarrow>
          (let header = ''-- gogo database export\<newline>''
                 @ ''-- Generated on: '' @ generated @ ''\<newline>''
                 @ ''-- Format: SQL\<newline>\<newline>''
           in case getTablesToExport src requestedTables of
                Inl err \<Rightarrow> (Some (Wrapf ''failed to get tables: '' err []), header)
              | Inr ts \<Rightarrow>
                  (case export_tables src includeSchema includeData ts header 0 of
                     (res, out, totalRows) \<Rightarrow> (res, out))))"

text \<open>
  What an import prints besides progress lines: the dry-run previews and the closing
  counts, each with the numbers it prints.
\<close>

datatype message =
    WouldExecute int
  | StatementsExecuted nat
  | WouldImport int int
  | RowsImported nat

text \<open>The loop of \<open>importSQL\<close> over the fragments, inside the transaction.\<close>

fun execute_statements ::
  "'db engine \<Rightarrow> string list \<Rightarrow> 'db tx \<Rightarrow> nat \<Rightarrow> error + ('db tx \<times> nat)" where
  "execute_statements eng [] t executed = Inr (t, executed)"
| "execute_statements eng (fragment # statements) t executed =
     (let stmt = TrimSpace fragment
      in if stmt = [] \<or> HasPrefix stmt ''--''
         then execute_statements eng statements t executed
         else case tx_ExecContext eng stmt t of
                Inl err \<Rightarrow>
                  Inl (Wrapf ''failed to execute statement: '' err (''\<newline>Statement: '' @ stmt))
              | Inr t' \<Rightarrow> execute_statements eng statements t' (executed + 1))"

definition importSQL ::
  "'db engine \<Rightarrow> bool \<Rightarrow> error + string \<Rightarrow> 'db \<Rightarrow> error option \<times> message list \<times> 'db" where
  "importSQL eng dryRun read db =
     (case read of
        Inl err \<Rightarrow> (Some (Wrapf ''failed to read SQL file: '' err []), [], db)
      | Inr contents \<Rightarrow>
          (let statements = Split contents CHR '';''
           in if dryRun then (None, [WouldExecute (int (length statements) - 1)], db)
              else case BeginTx eng db of
                Inl err \<Rightarrow> (Some (Wrapf ''failed to begin transaction: '' err []), [], db)
              | Inr t \<Rightarrow>
                  (case execute_statements eng statements t 0 of
                     Inl err \<Rightarrow> (Some err, [], tx_Rollback t)
                   | Inr (t', executed) \<Rightarrow>
                       (case tx_Commit eng t' of
                          (Some err, db') \<Rightarrow>
                            (Some (Wrapf ''failed to commit import transaction: '' err []), [], db')
                        | (None, db') \<Rightarrow> (None, [StatementsExecuted executed], db')))))"

text \<open>
  The decoded bundle of a structured import. Only the number of rows of a table is read,
  so a row is of any type; the denormalised lists of templates and blueprints are never
  read and are left out.
\<close>

record ExportMetadata =
  meta_Version :: string
  meta_Format :: string
  meta_TableCount :: int
  meta_RowCount :: int

record 'row ExportedData =
  Metadata :: ExportMetadata
  Tables :: "(string \<times> 'row list) list"

definition validateImportData :: "'row ExportedData \<Rightarrow> error option" where
  "validateImportData d =
     (if meta_Version (Metadata d) = [] then Some (Errorf ''import data missing version information'')
      else None)"

definition importTableRows :: "string \<Rightarrow> 'row list \<Rightarrow> bool \<Rightarrow> 'db \<Rightarrow> (error + nat) \<times> 'db" where
  "importTableRows tableName rows replaceExisting db = (Inr (length rows), db)"

fun import_tables ::
  "(string \<times> 'row list) list \<Rightarrow> bool \<Rightarrow> nat \<Rightarrow> 'db \<Rightarrow> (error + nat) \<times> 'db" where
  "import_tables [] replaceExisting totalImported db = (Inr totalImported, db)"
| "import_tables ((tableName, rows) # rest) replaceExisting totalImported db =
     (case importTableRows tableName rows replaceExisting db of
        (Inl err, db') \<Rightarrow> (Inl (Wrapf (''failed to import table '' @ tableName @ '': '') err []), db')
      | (Inr imported, db') \<Rightarrow> import_tables rest replaceExisting (totalImported + imported) db')"

definition importJSON ::
  "bool \<Rightarrow> bool \<Rightarrow> bool \<Rightarrow> error + (error + 'row ExportedData) \<Rightarrow> 'db
     \<Rightarrow> error option \<times> message list \<times> 'db" where
  "importJSON validate dryRun replaceExisting opened db =
     (case opened of
        Inl err \<Rightarrow> (Some (Wrapf ''failed to open JSON file: '' err []), [], db)
      | Inr (Inl err) \<Rightarrow> (Some (Wrapf ''failed to decode JSON: '' err []), [], db)
      | Inr (Inr exportData) \<Rightarrow>
          (case (if validate then validateImportData exportData else None) of
             Some err \<Rightarrow> (Some (Wrapf ''import data validation failed: '' err []), [], db)
           | None \<Rightarrow>
               if dryRun
               then (None, [WouldImport (meta_TableCount (Metadata exportData))
                                        (meta_RowCount (Metadata exportData))], db)
               else (case import_tables (Tables exportData) replaceExisting 0 db of
                       (Inl err, db') \<Rightarrow> (Some err, [], db')
                     | (Inr totalImported, db') \<Rightarrow> (None, [RowsImported totalImported], db'))))"

text \<open>A store with one table of one row, and the texts used as input files below.\<close>

definition configs_table :: table where
  "configs_table =
     \<lparr>table_sql = Some (''CREATE TABLE configs (id INTEGER PRIMARY KEY, scope TEXT, key TEXT, ''
                         @ ''value TEXT)''),
      table_columns = [''id'', ''scope'', ''key'', ''value''],
      table_rows = [[Integer 1, Text ''test'', Text ''key1'', Text ''value1'']]\<rparr>"

definition one_row_source :: source where
  "one_row_source = \<lparr>refuses = (\<lambda>query. None), tables = [(''configs'', configs_table)]\<rparr>"

definition one_row_export :: string where
  "one_row_export =
     ''-- gogo database export\<newline>''
     @ ''-- Generated on: 2024-05-01 10:00:00\<newline>''
     @ ''-- Format: SQL\<newline>\<newline>''
     @ ''-- Schema for table configs\<newline>''
     @ ''CREATE TABLE configs (id INTEGER PRIMARY KEY, scope TEXT, key TEXT, value TEXT);''
     @ ''\<newline>\<newline>''
     @ ''-- Data for table configs\<newline>''
     @ ''INSERT INTO configs (id, scope, key, value) VALUES (1, '' @ [CHR 0x27] @ ''test''
     @ [CHR 0x27] @ '', '' @ [CHR 0x27] @ ''key1'' @ [CHR 0x27] @ '', '' @ [CHR 0x27] @ ''value1''
     @ [CHR 0x27] @ '');\<newline>''
     @ ''\<newline>''"

definition commented_insert :: string where
  "commented_insert = ''-- seed row\<newline>INSERT INTO configs (id) VALUES (1);''"

definition unterminated_insert :: string where
  "unterminated_insert = ''INSERT INTO configs (id) VALUES (1)''"

definition empty_store :: "string list store" where
  "empty_store = \<lparr>user = [], ledger = None\<rparr>"

section \<open>Results about backup files\<close>

lemma isCompressedFile_content:
  assumes "fs path = Some f" and "openable f" and "content f \<noteq> []"
  shows "isCompressedFile fs path = Inr (has_gzip_magic (content f))"
proof (cases "content f")
  case Nil
  with assms show ?thesis by simp
next
  case (Cons a as)
  show ?thesis
  proof (cases as)
    case Nil
    with Cons assms show ?thesis
      by (simp add: isCompressedFile_def os_Open_def file_Read_def has_gzip_magic_def)
  next
    case (Cons b cs)
    with \<open>content f = a # as\<close> assms show ?thesis
      by (simp add: isCompressedFile_def os_Open_def file_Read_def has_gzip_magic_def)
  qed
qed

text \<open>
  C8 (as amended). For every existing file that can be opened and holds at least one
  byte, \<open>GetBackupInfo\<close> succeeds and reports \<open>IsCompressed\<close> true exactly when the
  file's first two bytes are \<open>0x1f 0x8b\<close>; the path enters only as the key of the
  lookup and as the reported \<open>Path\<close>, so no extension is consulted.
\<close>

theorem GetBackupInfo_magic:
  assumes "fs path = Some f" and "openable f" and "content f \<noteq> []"
  shows "GetBackupInfo fs path =
           Inr \<lparr>Path = path, Size = int (length (content f)), ModTime = modTime f,
                IsCompressed = has_gzip_magic (content f)\<rparr>"
  using assms
  by (simp add: GetBackupInfo_def os_Stat_def isCompressedFile_content)

theorem GetBackupInfo_magic_witness:
  "gzip_backup_fs ''backup.db'' = Some \<lparr>content = [0x1f, 0x8b, 0x08], modTime = 7, openable = True\<rparr>
   \<and> GetBackupInfo gzip_backup_fs ''backup.db'' =
       Inr \<lparr>Path = ''backup.db'', Size = 3, ModTime = 7, IsCompressed = True\<rparr>"
  using GetBackupInfo_magic [of gzip_backup_fs "''backup.db''"
      "\<lparr>content = [0x1f, 0x8b, 0x08], modTime = 7, openable = True\<rparr>"]
  by (simp add: gzip_backup_fs_def has_gzip_magic_def)

text \<open>
  The claim as first stated fails on an existing empty file: the header read hits end of
  file and \<open>GetBackupInfo\<close> returns an error, not a report with \<open>IsCompressed = False\<close>.
\<close>

theorem GetBackupInfo_empty_file_counterexample:
  "GetBackupInfo empty_backup_fs ''backup.db'' =
     Inl (Wrapf ''failed to read file header: '' (Errorf ''EOF'') [])"
  by (simp add: GetBackupInfo_def os_Stat_def isCompressedFile_def os_Open_def
      file_Read_def empty_backup_fs_def)

section \<open>Results about the health report\<close>

lemma overall_loop_eq:
  "overall_loop st cs =
     (if ''ERROR'' \<in> set (map check_Status cs) then ''ERROR''
      else if st = ''OK'' \<and> ''WARNING'' \<in> set (map check_Status cs) then ''WARNING'' else st)"
  by (induction cs arbitrary: st) auto

lemma CheckHealth_unreachable:
  assumes "check_Status (checkConnectivity p) = ''ERROR''"
  shows "Status (CheckHealth path now sz p) = ''ERROR''"
    and "Checks (CheckHealth path now sz p) = [checkConnectivity p]"
  using assms by (simp_all add: CheckHealth_def Let_def)

lemma CheckHealth_reachable:
  assumes "check_Status (checkConnectivity p) \<noteq> ''ERROR''"
  shows "Status (CheckHealth path now sz p) =
           overall_loop (if check_Status (checkIntegrity p) = ''ERROR'' then ''ERROR'' else ''OK'')
             (all_checks p)"
    and "Checks (CheckHealth path now sz p) = all_checks p"
  using assms by (cases sz; simp add: CheckHealth_def Let_def all_checks_def)+

lemma CheckHealth_worst:
  "Status (CheckHealth path now sz p) =
     worst_status (map check_Status (Checks (CheckHealth path now sz p)))"
proof (cases "check_Status (checkConnectivity p) = ''ERROR''")
  case True
  then show ?thesis
    by (simp add: CheckHealth_unreachable worst_status_def)
next
  case False
  have "overall_loop (if check_Status (checkIntegrity p) = ''ERROR'' then ''ERROR'' else ''OK'')
             (all_checks p) = worst_status (map check_Status (all_checks p))"
    unfolding overall_loop_eq worst_status_def by (simp add: all_checks_def)
  with False show ?thesis
    by (simp add: CheckHealth_reachable)
qed

lemma check_status_values:
  "check_Status (checkConnectivity p) \<in> {''OK'', ''WARNING'', ''ERROR''}"
  "check_Status (checkIntegrity p) \<in> {''OK'', ''WARNING'', ''ERROR''}"
  "check_Status (checkVersion p) \<in> {''OK'', ''WARNING'', ''ERROR''}"
  "check_Status (checkWALMode p) \<in> {''OK'', ''WARNING'', ''ERROR''}"
  "check_Status (checkTables p) \<in> {''OK'', ''WARNING'', ''ERROR''}"
  "check_Status (checkRowCounts p) \<in> {''OK'', ''WARNING'', ''ERROR''}"
  "check_Status (checkFreeSpace p) \<in> {''OK'', ''WARNING'', ''ERROR''}"
  "check_Status (checkPerformance p) \<in> {''OK'', ''WARNING'', ''ERROR''}"
  by (simp_all add: checkConnectivity_def checkIntegrity_def checkVersion_def checkWALMode_def
       checkTables_def checkRowCounts_def checkFreeSpace_def checkPerformance_def Let_def
       new_check_def split: option.splits sum.splits)

lemma CheckHealth_status_values:
  "set (map check_Status (Checks (CheckHealth path now sz p))) \<subseteq> {''OK'', ''WARNING'', ''ERROR''}"
proof (cases "check_Status (checkConnectivity p) = ''ERROR''")
  case True
  then show ?thesis by (simp add: CheckHealth_unreachable)
next
  case False
  then show ?thesis
    using check_status_values [of p] by (simp add: CheckHealth_reachable all_checks_def)
qed

lemma CheckHealth_has_checks: "Checks (CheckHealth path now sz p) \<noteq> []"
  by (cases "check_Status (checkConnectivity p) = ''ERROR''")
    (simp_all add: CheckHealth_unreachable CheckHealth_reachable all_checks_def)

lemma worst_status_max:
  assumes "set statuses \<subseteq> {''OK'', ''WARNING'', ''ERROR''}" and "statuses \<noteq> []"
  shows "severity (worst_status statuses) = Max (severity ` set statuses)"
proof (rule sym, rule Max_eqI)
  show "finite (severity ` set statuses)" by simp
  from assms show "severity (worst_status statuses) \<in> severity ` set statuses"
    by (cases statuses) (auto simp: worst_status_def severity_def image_iff)
  fix y assume "y \<in> severity ` set statuses"
  with assms show "y \<le> severity (worst_status statuses)"
    by (auto simp: worst_status_def severity_def)
qed

text \<open>
  C9. For every outcome of the probes, the overall status of the report \<open>CheckHealth\<close>
  returns is the worst status among the checks the report contains: \<open>ERROR\<close> if any check
  is \<open>ERROR\<close>, else \<open>WARNING\<close> if any check is \<open>WARNING\<close>, else \<open>OK\<close>. Every check status
  is one of the three, the report holds at least one check, and the overall status has the
  maximum severity of the checks under \<open>ERROR > WARNING > OK\<close>.
\<close>

theorem CheckHealth_overall_status:
  "Status (CheckHealth path now sz p) =
     worst_status (map check_Status (Checks (CheckHealth path now sz p)))
   \<and> set (map check_Status (Checks (CheckHealth path now sz p))) \<subseteq> {''OK'', ''WARNING'', ''ERROR''}
   \<and> severity (Status (CheckHealth path now sz p)) =
       Max (severity ` set (map check_Status (Checks (CheckHealth path now sz p))))"
proof -
  let ?ss = "map check_Status (Checks (CheckHealth path now sz p))"
  have ne: "?ss \<noteq> []" by (simp add: CheckHealth_has_checks)
  have "severity (worst_status ?ss) = Max (severity ` set ?ss)"
    by (rule worst_status_max [OF CheckHealth_status_values ne])
  then show ?thesis
    using CheckHealth_worst [of path now sz p] CheckHealth_status_values [of path now sz p]
    by simp
qed

section \<open>Results about the migration engine\<close>

lemma ApplyMigration_cases:
  assumes "UpSQL m \<noteq> []" and "ApplyMigration eng now m db = (res, db')"
  shows "(\<exists>err. res = Some err \<and> db' = db) \<or>
         (res = None \<and> begin_err eng db = None \<and>
          (\<exists>w rows. run eng (UpSQL m) db = Inr w \<and> stmt_err eng w = None \<and> ledger w = Some rows \<and>
             ID m \<notin> set (map row_id rows) \<and>
             db' = w\<lparr>ledger := Some (rows @
                      [\<lparr>row_id = ID m, row_description = Description m, row_applied_at = now,
                        row_checksum = generateChecksum (UpSQL m)\<rparr>])\<rparr> \<and>
             commit_err eng db' = None))"
  using assms
  by (auto simp: ApplyMigration_def BeginTx_def tx_ExecContext_def insert_ledger_def
      tx_Commit_def tx_Rollback_def
      split: option.splits sum.splits if_splits prod.splits)

lemma filter_absent_id:
  "mid \<notin> set (map row_id rows) \<Longrightarrow> filter (\<lambda>r. row_id r = mid) rows = []"
  by (induction rows) auto

lemma checksum_test_table: "generateChecksum (UpSQL test_table) = ''59-C)''"
  by code_simp

text \<open>
  C1. For every migration with a non-empty forward body, whatever the engine does:
  if \<open>ApplyMigration\<close> returns an error, the store is exactly as it was before the call
  (neither the effect of the forward body nor a ledger row persists); if it returns
  \<open>nil\<close>, the forward body has run on the store and the ledger holds exactly one row for
  the migration's id, with its description, the time of the insert and the checksum of
  the forward body.
\<close>

theorem ApplyMigration_atomic:
  assumes "UpSQL m \<noteq> []" and "ApplyMigration eng now m db = (res, db')"
  shows "(res \<noteq> None \<longrightarrow> db' = db) \<and>
         (res = None \<longrightarrow>
            (\<exists>w. run eng (UpSQL m) db = Inr w \<and> user db' = user w) \<and>
            ledger_rows_for (ID m) db' =
              [\<lparr>row_id = ID m, row_description = Description m, row_applied_at = now,
                row_checksum = generateChecksum (UpSQL m)\<rparr>])"
proof (intro conjI impI)
  assume "res \<noteq> None"
  with ApplyMigration_cases [OF assms] show "db' = db" by auto
next
  assume "res = None"
  with ApplyMigration_cases [OF assms] obtain w rows where
    w: "run eng (UpSQL m) db = Inr w" "ledger w = Some rows" "ID m \<notin> set (map row_id rows)"
    and db': "db' = w\<lparr>ledger := Some (rows @
                      [\<lparr>row_id = ID m, row_description = Description m, row_applied_at = now,
                        row_checksum = generateChecksum (UpSQL m)\<rparr>])\<rparr>"
    by auto
  from w(1) db' show "\<exists>w. run eng (UpSQL m) db = Inr w \<and> user db' = user w" by simp
  from db' filter_absent_id [OF w(3)]
  show "ledger_rows_for (ID m) db' =
      [\<lparr>row_id = ID m, row_description = Description m, row_applied_at = now,
        row_checksum = generateChecksum (UpSQL m)\<rparr>]"
    by (simp add: ledger_rows_for_def)
qed

text \<open>
  The test's migration on a store with an empty ledger is applied and recorded; applied
  again, the insert of the second ledger row fails and the store, the re-run forward
  body included, is as before.
\<close>

theorem ApplyMigration_atomic_witness:
  "UpSQL test_table \<noteq> [] \<and>
   ApplyMigration recording_engine 7 test_table \<lparr>user = [], ledger = Some []\<rparr> =
     (None, \<lparr>user = [UpSQL test_table], ledger = Some [test_table_row]\<rparr>) \<and>
   ledger_rows_for ''001_test_table''
     \<lparr>user = [UpSQL test_table], ledger = Some [test_table_row]\<rparr> = [test_table_row] \<and>
   ApplyMigration recording_engine 8 test_table
       \<lparr>user = [UpSQL test_table], ledger = Some [test_table_row]\<rparr> =
     (Some (Wrapf ''failed to record migration 001_test_table: ''
              (Errorf ''UNIQUE constraint failed: schema_migrations.id'') []),
      \<lparr>user = [UpSQL test_table], ledger = Some [test_table_row]\<rparr>)"
proof -
  have up: "UpSQL test_table \<noteq> []" by (simp add: test_table_def)
  have first: "ApplyMigration recording_engine 7 test_table \<lparr>user = [], ledger = Some []\<rparr> =
     (None, \<lparr>user = [UpSQL test_table], ledger = Some [test_table_row]\<rparr>)"
    using checksum_test_table
    by (simp add: ApplyMigration_def BeginTx_def tx_ExecContext_def insert_ledger_def
        tx_Commit_def recording_engine_def test_table_def test_table_row_def)
  have again: "ApplyMigration recording_engine 8 test_table
       \<lparr>user = [UpSQL test_table], ledger = Some [test_table_row]\<rparr> =
     (Some (Wrapf ''failed to record migration 001_test_table: ''
              (Errorf ''UNIQUE constraint failed: schema_migrations.id'') []),
      \<lparr>user = [UpSQL test_table], ledger = Some [test_table_row]\<rparr>)"
    by (simp add: ApplyMigration_def BeginTx_def tx_ExecContext_def insert_ledger_def
        tx_Rollback_def recording_engine_def test_table_def test_table_row_def)
  from ApplyMigration_atomic [OF up first]
  have "ledger_rows_for ''001_test_table''
     \<lparr>user = [UpSQL test_table], ledger = Some [test_table_row]\<rparr> = [test_table_row]"
    using checksum_test_table by (simp add: test_table_def test_table_row_def)
  with up first again show ?thesis by simp
qed

lemma map_fst_assign:
  "map fst (assign k v ps) = (if k \<in> set (map fst ps) then map fst ps else map fst ps @ [k])"
  by (induction ps) auto

lemma set_assign: "set (assign k v ps) \<subseteq> insert (k, v) (set ps)"
  by (induction ps) auto


lemma registered_Nil: "registered NewMigrationManager"
  by (simp add: registered_def NewMigrationManager_def)

lemma registered_assign:
  assumes "registered ps" and "ID v = k"
  shows "registered (assign k v ps)"
proof -
  from assms(1) have "distinct (map fst (assign k v ps))"
    by (simp add: registered_def map_fst_assign)
  moreover from assms set_assign [of k v ps]
  have "list_all (\<lambda>(mid, migration). ID migration = mid) (assign k v ps)"
    by (auto simp: registered_def list_all_iff)
  ultimately show ?thesis by (simp add: registered_def)
qed

lemma registered_RegisterMigration:
  "registered ps \<Longrightarrow> registered (RegisterMigration mid d u dn ps)"
  by (simp add: RegisterMigration_def registered_assign)

lemma registered_RegisterCoreSchemas:
  "registered ps \<Longrightarrow> registered (RegisterCoreSchemas ps)"
  by (simp add: RegisterCoreSchemas_def Let_def registered_RegisterMigration)

lemma registered_three: "registered three_registered"
  by (simp add: three_registered_def registered_RegisterMigration registered_Nil)


lemma dom_collect_applied:
  "dom (collect_applied applied rows) = dom applied \<union> set (map row_id rows)"
  by (induction rows arbitrary: applied) auto

lemma collect_applied_None:
  "(collect_applied Map.empty rows k = None) = (k \<notin> set (map row_id rows))"
proof -
  have "(collect_applied Map.empty rows k = None) = (k \<notin> dom (collect_applied Map.empty rows))"
    by (simp add: domIff)
  then show ?thesis by (simp add: dom_collect_applied)
qed

lemma GetAppliedMigrations_cases:
  "GetAppliedMigrations eng db = (res, db') \<Longrightarrow>
     (\<exists>err. res = Inl err \<and> (stmt_err eng db \<noteq> None \<or> stmt_err eng db' \<noteq> None)) \<or>
     (\<exists>applied. res = Inr applied \<and> (\<forall>k. (applied k = None) = (k \<notin> applied_ids db)) \<and>
        applied_ids db' = applied_ids db \<and> user db' = user db \<and> ledger db' \<noteq> None)"
  by (auto simp: GetAppliedMigrations_def InitMigrationTable_def create_ledger_def
      select_ledger_def applied_ids_def collect_applied_None
      split: option.splits sum.splits prod.splits)

lemma length_filter_keys:
  assumes "distinct (map fst ps)"
  shows "length (filter (\<lambda>(k, v). k \<in> A) ps) = card (fst ` set ps \<inter> A)"
proof -
  have "map fst (filter (\<lambda>(k, v). k \<in> A) ps) = filter (\<lambda>k. k \<in> A) (map fst ps)"
    by (induction ps) auto
  moreover from assms have "distinct (filter (\<lambda>k. k \<in> A) (map fst ps))" by simp
  ultimately have "length (filter (\<lambda>(k, v). k \<in> A) ps)
      = card (set (filter (\<lambda>k. k \<in> A) (map fst ps)))"
    by (metis distinct_card length_map)
  also have "set (filter (\<lambda>k. k \<in> A) (map fst ps)) = fst ` set ps \<inter> A" by auto
  finally show ?thesis .
qed

lemma length_pending:
  assumes "distinct (map fst ps)"
  shows "length (filter (\<lambda>(k, v). k \<notin> A) ps) = length ps - card (fst ` set ps \<inter> A)"
proof -
  have "length (filter (\<lambda>(k, v). k \<notin> A) ps) + length (filter (\<lambda>(k, v). k \<in> A) ps) = length ps"
    using sum_length_filter_compl [of "\<lambda>(k, v). k \<notin> A" ps]
    by (simp add: case_prod_unfold)
  with length_filter_keys [OF assms, of A] show ?thesis by simp
qed

lemma registered_ID:
  assumes "registered ps"
  shows "map ID (map snd ps) = map fst ps"
  using assms by (induction ps) (auto simp: registered_def)

lemma distinct_pending_ids:
  assumes "registered ps"
  shows "distinct (map ID (map snd (filter P ps)))"
proof -
  have "registered (filter P ps)"
    using assms by (auto simp: registered_def distinct_map_filter list_all_iff)
  then have eq: "map ID (map snd (filter P ps)) = map fst (filter P ps)"
    by (rule registered_ID)
  from assms have "distinct (map fst (filter P ps))"
    by (simp add: registered_def distinct_map_filter)
  then show ?thesis unfolding eq .
qed

text \<open>
  C2. For a registry of N migrations (one entry per id, as \<open>RegisterMigration\<close> keeps it)
  of which K have their id in the ledger, \<open>GetPendingMigrations\<close> fails only when the
  engine refuses one of its two statements, and otherwise returns exactly the registered
  migrations whose id is not in the ledger, in ascending order of id, without repetition,
  N - K of them.
\<close>

theorem GetPendingMigrations_pending:
  assumes "registered migrations"
    and "GetPendingMigrations eng migrations db = (res, db')"
  shows "case res of
           Inl err \<Rightarrow> stmt_err eng db \<noteq> None \<or> stmt_err eng db' \<noteq> None
         | Inr pending \<Rightarrow>
             set pending = {migration. \<exists>mid. (mid, migration) \<in> set migrations \<and> mid \<notin> applied_ids db}
             \<and> sorted (map ID pending) \<and> distinct (map ID pending)
             \<and> length pending
                 = length migrations - card (fst ` set migrations \<inter> applied_ids db)"
proof -
  obtain ares adb where a: "GetAppliedMigrations eng db = (ares, adb)" by fastforce
  show ?thesis
  proof (cases ares)
    case (Inl err)
    with a assms(2) have "res = Inl err" "db' = adb"
      by (simp_all add: GetPendingMigrations_def)
    with GetAppliedMigrations_cases [OF a] Inl show ?thesis by auto
  next
    case (Inr applied)
    let ?P = "\<lambda>(mid, migration). applied mid = None"
    let ?Q = "\<lambda>(k, v :: Migration). k \<notin> applied_ids db"
    from GetAppliedMigrations_cases [OF a] Inr
    have ap: "\<And>k. (applied k = None) = (k \<notin> applied_ids db)" by auto
    then have PQ: "?P = ?Q" by auto
    from a Inr assms(2)
    have res: "res = Inr (sort_key ID (map snd (filter ?Q migrations)))"
      by (simp add: GetPendingMigrations_def PQ)
    have 1: "set (sort_key ID (map snd (filter ?Q migrations)))
        = {migration. \<exists>mid. (mid, migration) \<in> set migrations \<and> mid \<notin> applied_ids db}"
      by force
    have 2: "sorted (map ID (sort_key ID (map snd (filter ?Q migrations))))"
      by (rule sorted_sort_key)
    have "distinct (map ID (map snd (filter ?Q migrations)))"
      by (rule distinct_pending_ids [OF assms(1)])
    then have 3: "distinct (map ID (sort_key ID (map snd (filter ?Q migrations))))"
      by (metis distinct_map distinct_sort set_sort)
    have 4: "length (sort_key ID (map snd (filter ?Q migrations)))
        = length migrations - card (fst ` set migrations \<inter> applied_ids db)"
      using length_pending [of migrations "applied_ids db"] assms(1)
      by (simp add: registered_def)
    from res 1 2 3 4 show ?thesis by simp
  qed
qed

lemma pending_of_three:
  "GetPendingMigrations recording_engine three_registered first_applied =
     (Inr [\<lparr>ID = ''002_second'', Description = ''Second migration'',
            UpSQL = ''CREATE TABLE second (id INTEGER)'', DownSQL = ''DROP TABLE second'',
            Applied = False, AppliedAt = None\<rparr>,
           \<lparr>ID = ''003_third'', Description = ''Third migration'',
            UpSQL = ''CREATE TABLE third (id INTEGER)'', DownSQL = ''DROP TABLE third'',
            Applied = False, AppliedAt = None\<rparr>],
      first_applied)"
  by code_simp

text \<open>
  The test's registry (here visited in the order third, first, second) with the first
  migration applied: the second and the third are pending, in this order, 3 - 1 of them.
\<close>

theorem GetPendingMigrations_pending_witness:
  "registered three_registered \<and>
   fst (GetPendingMigrations recording_engine three_registered first_applied) =
     Inr [\<lparr>ID = ''002_second'', Description = ''Second migration'',
           UpSQL = ''CREATE TABLE second (id INTEGER)'', DownSQL = ''DROP TABLE second'',
           Applied = False, AppliedAt = None\<rparr>,
          \<lparr>ID = ''003_third'', Description = ''Third migration'',
           UpSQL = ''CREATE TABLE third (id INTEGER)'', DownSQL = ''DROP TABLE third'',
           Applied = False, AppliedAt = None\<rparr>] \<and>
   length three_registered - card (fst ` set three_registered \<inter> applied_ids first_applied) = 2"
  using GetPendingMigrations_pending [OF registered_three pending_of_three]
    registered_three pending_of_three
  by simp








text \<open>
  C5 (the code at the failing input). The fourth core migration is registered with the
  reverse body that says the columns cannot be rolled back. On a store where it is
  applied, \<open>RollbackMigration\<close> hands that text to the engine (a comment and a \<open>SELECT\<close>
  of a string constant), deletes the ledger row and returns \<open>nil\<close>: no error is surfaced,
  and nothing has undone the forward body.
\<close>

theorem RollbackMigration_core_004_succeeds:
  "map_of (RegisterCoreSchemas NewMigrationManager) ''004_add_metadata_columns'' = Some core_004
   \<and> ledger_rows_for ''004_add_metadata_columns'' core_004_applied \<noteq> []
   \<and> RollbackMigration recording_engine core_004 core_004_applied =
       (None, \<lparr>user = [up_004, down_004], ledger = Some []\<rparr>)"
  by code_simp

section \<open>Results about \<open>WithTx\<close>\<close>

text \<open>
  C10. Once the transaction has begun: if \<open>fn\<close> returns an error, \<open>WithTx\<close> returns that
  same error and the store is as before; if \<open>fn\<close> panics, the panic value is raised again
  and the store is as before; if \<open>fn\<close> returns \<open>nil\<close>, the transaction is committed (the
  store becomes what \<open>fn\<close> built) or, when the commit fails, the commit's error is returned
  and the store is as before. So the store changes only when \<open>fn\<close> has returned \<open>nil\<close>.
\<close>

theorem WithTx_transaction:
  assumes "begin_err eng db = None"
  shows "(\<forall>err w. fn db = (Returns (Some err), w) \<longrightarrow> WithTx eng fn db = (Returns (Some err), db))
       \<and> (\<forall>p w. fn db = (Panics p, w) \<longrightarrow> WithTx eng fn db = (Panics p, db))
       \<and> (\<forall>w. fn db = (Returns None, w) \<longrightarrow>
            WithTx eng fn db = (case commit_err eng w of
                                  None \<Rightarrow> (Returns None, w)
                                | Some err \<Rightarrow> (Returns (Some err), db)))
       \<and> (snd (WithTx eng fn db) \<noteq> db \<longrightarrow> fst (fn db) = Returns None)"
  using assms
  by (auto simp: WithTx_def BeginTx_def tx_Rollback_def tx_Commit_def
      split: option.splits prod.splits outcome.splits)

lemma recording_engine_begins: "begin_err recording_engine db = None"
  by (simp add: recording_engine_def)

text \<open>
  The two transactions of the repository's test, and one that panics after its insert:
  the first insert is committed, the other two leave the store as it was.
\<close>

theorem WithTx_transaction_witness:
  "begin_err recording_engine empty_store = None \<and>
   WithTx recording_engine (\<lambda>w. (Returns None, w\<lparr>user := user w @ [''INSERT key1'']\<rparr>)) empty_store
     = (Returns None, \<lparr>user = [''INSERT key1''], ledger = None\<rparr>) \<and>
   WithTx recording_engine
       (\<lambda>w. (Returns (Some (Errorf ''assert.AnError general error for testing'')),
             w\<lparr>user := user w @ [''INSERT key2'']\<rparr>)) empty_store
     = (Returns (Some (Errorf ''assert.AnError general error for testing'')), empty_store) \<and>
   WithTx recording_engine (\<lambda>w. (Panics ''boom'', w\<lparr>user := user w @ [''INSERT key3'']\<rparr>))
       empty_store
     = (Panics ''boom'', empty_store)"
  using
    WithTx_transaction [of recording_engine empty_store
      "\<lambda>w. (Returns None, w\<lparr>user := user w @ [''INSERT key1'']\<rparr>)"]
    WithTx_transaction [of recording_engine empty_store
      "\<lambda>w. (Returns (Some (Errorf ''assert.AnError general error for testing'')),
             w\<lparr>user := user w @ [''INSERT key2'']\<rparr>)"]
    WithTx_transaction [of recording_engine empty_store
      "\<lambda>w. (Panics ''boom'', w\<lparr>user := user w @ [''INSERT key3'']\<rparr>)"]
  by (simp add: recording_engine_def empty_store_def)

section \<open>Results about export and import\<close>

lemma execute_statements_snapshot:
  "execute_statements eng statements t n = Inr (t', n') \<Longrightarrow> snapshot t' = snapshot t"
proof (induction statements arbitrary: t n)
  case Nil
  then show ?case by simp
next
  case (Cons fragment statements)
  then show ?case
    by (auto simp: Let_def tx_ExecContext_def split: if_splits sum.splits)
qed

text \<open>
  A failed SQL import leaves the store as it was, and a dry run of either format leaves
  the store as it was whatever the file holds.
\<close>

lemma importSQL_all_or_nothing:
  assumes "importSQL eng dryRun read db = (Some err, msgs, db')"
  shows "db' = db"
proof (cases read)
  case (Inl e)
  with assms show ?thesis by (simp add: importSQL_def)
next
  case (Inr contents)
  show ?thesis
  proof (cases "dryRun")
    case True
    with assms Inr show ?thesis by (simp add: importSQL_def Let_def)
  next
    case False
    show ?thesis
    proof (cases "BeginTx eng db")
      case (Inl e)
      with assms Inr False show ?thesis by (simp add: importSQL_def Let_def)
    next
      case (Inr t)
      then have snap: "snapshot t = db"
        by (auto simp: BeginTx_def split: option.splits)
      show ?thesis
      proof (cases "execute_statements eng (Split contents CHR '';'') t 0")
        case (Inl e)
        with assms \<open>read = Inr contents\<close> False Inr snap show ?thesis
          by (simp add: importSQL_def Let_def tx_Rollback_def)
      next
        case (Inr r)
        obtain t' n where r: "r = (t', n)" by (cases r)
        from execute_statements_snapshot Inr r have "snapshot t' = snapshot t" by blast
        with assms \<open>read = Inr contents\<close> False \<open>BeginTx eng db = Inr t\<close> Inr r snap
        show ?thesis
          by (auto simp: importSQL_def Let_def tx_Commit_def split: option.splits)
      qed
    qed
  qed
qed

lemma importSQL_dry_run_writes_nothing:
  "snd (snd (importSQL eng True read db)) = db"
  by (cases read) (simp_all add: importSQL_def Let_def)

lemma import_tables_writes_nothing:
  "snd (import_tables tabs replaceExisting n db) = db"
  by (induction tabs arbitrary: n) (auto simp: importTableRows_def)

lemma import_tables_result:
  "\<exists>r. import_tables tabs replaceExisting n db = (r, db)"
  using import_tables_writes_nothing [of tabs replaceExisting n db]
  by (metis prod.collapse)

lemma importJSON_writes_nothing:
  "snd (snd (importJSON validate dryRun replaceExisting opened db)) = db"
proof (cases opened)
  case (Inl err)
  then show ?thesis by (simp add: importJSON_def)
next
  case (Inr decoded)
  show ?thesis
  proof (cases decoded)
    case (Inl err)
    with Inr show ?thesis by (simp add: importJSON_def)
  next
    case (Inr exportData)
    obtain r where "import_tables (Tables exportData) replaceExisting 0 db = (r, db)"
      using import_tables_result [of "Tables exportData" replaceExisting 0 db] by auto
    with Inr \<open>opened = Inr decoded\<close> show ?thesis
      by (cases r) (simp_all add: importJSON_def split: option.splits)
  qed
qed

text \<open>
  C3 (the code at the failing input). A store with the one table \<open>configs\<close> holding one
  row is exported with schema and data; the export writes a comment line before the
  \<open>CREATE\<close> statement and before the first \<open>INSERT\<close>. Importing that text sends no
  statement to the engine: the import reports success with 0 statements executed and
  the destination is as it was, so the exported row is not in it.
\<close>

theorem export_import_loses_first_row:
  "exportSQL None ''2024-05-01 10:00:00'' one_row_source [] True True = (None, one_row_export)
   \<and> importSQL recording_engine False (Inr one_row_export) empty_store
       = (None, [StatementsExecuted 0], empty_store)"
  by code_simp

text \<open>
  C4 (the code at the failing input). A file whose only fragment is a comment line
  followed by an \<open>INSERT\<close> statement: the fragment is not blank and does not consist
  solely of comments, and the import skips it; no statement reaches the engine.
\<close>

theorem importSQL_skips_commented_statement:
  "importSQL recording_engine False (Inr commented_insert) empty_store
     = (None, [StatementsExecuted 0], empty_store)"
  by code_simp

text \<open>
  C7 (the code at the failing input). A file holding one statement with no closing
  semicolon: the dry run reports that 0 statements would be executed, and the real run
  executes 1.
\<close>

theorem importSQL_dry_run_count_differs:
  "importSQL recording_engine True (Inr unterminated_insert) empty_store
     = (None, [WouldExecute 0], empty_store)
   \<and> importSQL recording_engine False (Inr unterminated_insert) empty_store
     = (None, [StatementsExecuted 1],
        \<lparr>user = [''INSERT INTO configs (id) VALUES (1)''], ledger = None\<rparr>)"
  by code_simp


end
